theory Spec2Isabelle
  imports Main "HOL-Library.AList"
begin

section \<open>Regular expressions of the pattern library\<close>

text \<open>
  The four patterns of \<^verbatim>\<open>constants.ts\<close> are JavaScript regular expressions.  They are
  embedded as terms of a small regular-expression syntax, and matched by a backtracking
  matcher that returns every way of matching in the order in which a backtracking engine
  tries them: the head of the list is the match that \<^verbatim>\<open>RegExp.prototype.exec\<close> reports.

  A document is a \<open>string\<close>; one \<open>char\<close> stands for one UTF-16 code unit below 256.
  A character class is a list of inclusive code ranges.
\<close>

type_synonym char_class = "(nat \<times> nat) list"

definition inClass :: "char_class \<Rightarrow> char \<Rightarrow> bool" where
  "inClass cls c = list_ex (\<lambda>(lo, hi). lo \<le> of_char c \<and> (of_char c :: nat) \<le> hi) cls"

datatype re =
    Cls char_class
  | Seq "re list"
  | Alt "re list"
  | Opt re
  | Star re
  | Times nat re
  | Grp nat re
  | Ahead re
  | Behind char_class

text \<open>
  \<open>Cls\<close> is one character of a class, \<open>Seq\<close> a concatenation, \<open>Alt\<close> the alternatives
  \<^verbatim>\<open>a|b|...\<close> tried from left to right, \<open>Opt\<close> the greedy \<^verbatim>\<open>a?\<close>, \<open>Star\<close> the greedy
  \<^verbatim>\<open>a*\<close>, \<open>Times n\<close> the counted \<^verbatim>\<open>a{n}\<close>, \<open>Grp i\<close> the \<open>i\<close>-th capturing group (groups
  are numbered by their opening parenthesis, named groups included), \<open>Ahead\<close> the
  lookahead \<^verbatim>\<open>(?=a)\<close> and \<open>Behind\<close> a lookbehind \<^verbatim>\<open>(?<=c)\<close> for one character.

  The matcher's state: the text already passed (latest character first), the text still
  ahead, and the captures made so far.
\<close>

record rstate =
  seen :: string
  rest :: string
  caps :: "(nat \<times> string) list"

fun rsize :: "re \<Rightarrow> nat" where
  "rsize (Cls cls) = 0"
| "rsize (Seq rs) = Suc (sum_list (map (\<lambda>r. Suc (rsize r)) rs))"
| "rsize (Alt rs) = Suc (sum_list (map (\<lambda>r. Suc (rsize r)) rs))"
| "rsize (Opt a) = Suc (rsize a)"
| "rsize (Star a) = Suc (rsize a)"
| "rsize (Times n a) = Suc (n + rsize a)"
| "rsize (Grp i a) = Suc (rsize a)"
| "rsize (Ahead a) = Suc (rsize a)"
| "rsize (Behind cls) = 0"

text \<open>
  An iteration of \<^verbatim>\<open>a*\<close> or \<^verbatim>\<open>a?\<close> that consumes nothing is rejected, as the
  language standard has it (RepeatMatcher, step 2.b).
\<close>

function (sequential) ms :: "re \<Rightarrow> rstate \<Rightarrow> rstate list" where
  "ms (Cls cls) s =
     (case rest s of
        [] \<Rightarrow> []
      | c # t \<Rightarrow> if inClass cls c then [s\<lparr>seen := c # seen s, rest := t\<rparr>] else [])"
| "ms (Seq []) s = [s]"
| "ms (Seq (a # rs)) s = concat (map (ms (Seq rs)) (ms a s))"
| "ms (Alt []) s = []"
| "ms (Alt (a # rs)) s = ms a s @ ms (Alt rs) s"
| "ms (Opt a) s = filter (\<lambda>s'. length (rest s') < length (rest s)) (ms a s) @ [s]"
| "ms (Star a) s =
     concat (map (\<lambda>s'. if length (rest s') < length (rest s) then ms (Star a) s' else [])
                 (ms a s)) @ [s]"
| "ms (Times 0 a) s = [s]"
| "ms (Times (Suc n) a) s = concat (map (ms (Times n a)) (ms a s))"
| "ms (Grp i a) s =
     map (\<lambda>s'. s'\<lparr>caps := (i, take (length (rest s) - length (rest s')) (rest s)) # caps s'\<rparr>)
         (ms a s)"
| "ms (Ahead a) s = (case ms a s of [] \<Rightarrow> [] | s' # _ \<Rightarrow> [s\<lparr>caps := caps s'\<rparr>])"
| "ms (Behind cls) s =
     (case seen s of [] \<Rightarrow> [] | c # _ \<Rightarrow> if inClass cls c then [s] else [])"
  by pat_completeness auto
termination
  by (relation "measures [\<lambda>(r, s). rsize r, \<lambda>(r, s). length (rest s)]") auto

text \<open>
  A match as \<^verbatim>\<open>exec\<close> returns it: \<^verbatim>\<open>m.index\<close>, \<^verbatim>\<open>m[0]\<close> and the groups that took part
  (a group that did not take part is \<^verbatim>\<open>undefined\<close>: it has no entry).
\<close>

record rmatch =
  index :: nat
  matched :: string
  groups :: "(nat \<times> string) list"

definition matchAt :: "re \<Rightarrow> string \<Rightarrow> string \<Rightarrow> rstate option" where
  "matchAt r sn rs =
     (case ms r \<lparr>seen = sn, rest = rs, caps = []\<rparr> of [] \<Rightarrow> None | s' # _ \<Rightarrow> Some s')"

definition mkMatch :: "string \<Rightarrow> string \<Rightarrow> rstate \<Rightarrow> rmatch" where
  "mkMatch sn rs s' =
     \<lparr>index = length sn, matched = take (length rs - length (rest s')) rs, groups = caps s'\<rparr>"

text \<open>
  \<open>execAll r text\<close> is the sequence of results of the successive calls \<^verbatim>\<open>regex.exec(text)\<close>
  on a fresh global regular expression, up to the call that returns \<^verbatim>\<open>null\<close>: each call
  looks for the leftmost match at or after \<^verbatim>\<open>lastIndex\<close> and moves \<^verbatim>\<open>lastIndex\<close> to the
  end of the match.  \<open>scan r sn rs k\<close> walks the text, \<open>k\<close> being the number of characters
  still inside the previous match.  None of the four patterns matches the empty string
  (each consumes at least one character), so \<^verbatim>\<open>lastIndex\<close> always advances; on an empty
  match the walk here moves on by one character.
\<close>

fun scan :: "re \<Rightarrow> string \<Rightarrow> string \<Rightarrow> nat \<Rightarrow> rmatch list" where
  "scan r sn [] k =
     (if 0 < k then []
      else case matchAt r sn [] of None \<Rightarrow> [] | Some s' \<Rightarrow> [mkMatch sn [] s'])"
| "scan r sn (c # t) k =
     (if 0 < k then scan r (c # sn) t (k - 1)
      else case matchAt r sn (c # t) of
             None \<Rightarrow> scan r (c # sn) t 0
           | Some s' \<Rightarrow>
               mkMatch sn (c # t) s' #
               scan r (c # sn) t (length (c # t) - length (rest s') - 1))"

definition execAll :: "re \<Rightarrow> string \<Rightarrow> rmatch list" where
  "execAll r text = scan r [] text 0"

text \<open>\<^verbatim>\<open>regex.exec(text)\<close> on a fresh regular expression: the first match, if any.\<close>

definition exec :: "re \<Rightarrow> string \<Rightarrow> rmatch option" where
  "exec r text = (case execAll r text of [] \<Rightarrow> None | m # _ \<Rightarrow> Some m)"

text \<open>\<^verbatim>\<open>m[i]\<close> and \<^verbatim>\<open>m.groups.name\<close>: the text of a group, if it took part.\<close>

definition grp :: "rmatch \<Rightarrow> nat \<Rightarrow> string option" where
  "grp m i = map_of (groups m) i"

subsection \<open>The patterns\<close>

definition chr1 :: "char \<Rightarrow> re" where
  "chr1 c = Cls [(of_char c, of_char c)]"

definition plus :: "re \<Rightarrow> re" where
  "plus a = Seq [a, Star a]"

text \<open>\<^verbatim>\<open>[0-9a-fA-F]\<close>\<close>

definition hexDigit :: char_class where
  "hexDigit = [(48, 57), (97, 102), (65, 70)]"

text \<open>
  \<^verbatim>\<open>\s\<close>: tab, line feed, vertical tab, form feed, carriage return, space and no-break
  space (the white space and line terminators below 256).
\<close>

definition whitespace :: char_class where
  "whitespace = [(9, 13), (32, 32), (160, 160)]"

text \<open>\<^verbatim>\<open>/#([0-9a-fA-F]{6}([0-9a-fA-F]{2})?|[0-9a-fA-F]{3}([0-9a-fA-F]{1})?)/g\<close>\<close>

definition colorTokenPattern :: re where
  "colorTokenPattern =
     Seq [chr1 CHR ''#'',
          Grp 1 (Alt [Seq [Times 6 (Cls hexDigit), Opt (Grp 2 (Times 2 (Cls hexDigit)))],
                      Seq [Times 3 (Cls hexDigit), Opt (Grp 3 (Times 1 (Cls hexDigit)))]])]"

text \<open>\<^verbatim>\<open>(25[0-5]|2[0-4][0-9]|1[0-9]{2}|[1-9]?[0-9])\<close>, without its group\<close>

definition rgbInt :: re where
  "rgbInt =
     Alt [Seq [chr1 CHR ''2'', chr1 CHR ''5'', Cls [(48, 53)]],
          Seq [chr1 CHR ''2'', Cls [(48, 52)], Cls [(48, 57)]],
          Seq [chr1 CHR ''1'', Times 2 (Cls [(48, 57)])],
          Seq [Opt (Cls [(49, 57)]), Cls [(48, 57)]]]"

text \<open>\<^verbatim>\<open>/\{(\s*)(INT)(\s*),(\s*)(INT)(\s*),(\s*)(INT)(\s*)\}/g\<close>\<close>

definition rgbArrayPattern :: re where
  "rgbArrayPattern =
     Seq [chr1 CHR ''{'',
          Grp 1 (Star (Cls whitespace)), Grp 2 rgbInt, Grp 3 (Star (Cls whitespace)),
          chr1 CHR '','',
          Grp 4 (Star (Cls whitespace)), Grp 5 rgbInt, Grp 6 (Star (Cls whitespace)),
          chr1 CHR '','',
          Grp 7 (Star (Cls whitespace)), Grp 8 rgbInt, Grp 9 (Star (Cls whitespace)),
          chr1 CHR ''}'']"

text \<open>\<^verbatim>\<open>/var\(--(?<cssVar>[a-zA-Z0-9\-]+)\)/g\<close>; \<^verbatim>\<open>cssVar\<close> is group 1.\<close>

definition cssVariablePattern :: re where
  "cssVariablePattern =
     Seq [chr1 CHR ''v'', chr1 CHR ''a'', chr1 CHR ''r'', chr1 CHR ''('', chr1 CHR ''-'',
          chr1 CHR ''-'',
          Grp 1 (plus (Cls [(97, 122), (65, 90), (48, 57), (45, 45)])),
          chr1 CHR '')'']"

text \<open>
  \<^verbatim>\<open>/(((?<=")(?<varDoulbeQuote>[a-zA-Z0-9-_]+)(?="\s*:))|((?<=')(?<varSingleQuote>[a-zA-Z0-9-_]+)(?='\s*:)))/g\<close>;
  \<^verbatim>\<open>varDoulbeQuote\<close> is group 3 and \<^verbatim>\<open>varSingleQuote\<close> is group 5.
\<close>

definition keyChar :: char_class where
  "keyChar = [(97, 122), (65, 90), (48, 57), (45, 45), (95, 95)]"

definition jsonKeyPattern :: re where
  "jsonKeyPattern =
     Grp 1 (Alt [Grp 2 (Seq [Behind [(34, 34)], Grp 3 (plus (Cls keyChar)),
                             Ahead (Seq [chr1 (CHR 0x22), Star (Cls whitespace), chr1 CHR '':''])]),
                 Grp 4 (Seq [Behind [(39, 39)], Grp 5 (plus (Cls keyChar)),
                             Ahead (Seq [chr1 (CHR 0x27), Star (Cls whitespace), chr1 CHR '':''])])])"

section \<open>Numbers\<close>

text \<open>
  A JavaScript number is an IEEE 754 double.  \<open>Num m e\<close> is the finite double of value
  \<open>m * 2 ^ e\<close>, kept in one form: zero is \<open>Num 0 0\<close>, every other double has a
  significand of exactly 53 bits (\<open>2 ^ 52 \<le> \<bar>m\<bar> < 2 ^ 53\<close>).  Negative zero, the
  infinities and the subnormal range are outside the model: the exponent is unbounded.
  The colour components handled here lie between 0 and 255.
\<close>

datatype jsnum = NaN | Num int int

function bitlen :: "int \<Rightarrow> int" where
  "bitlen n = (if n \<le> 0 then 0 else 1 + bitlen (n div 2))"
  by pat_completeness auto
termination
  by (relation "measure nat") auto

declare bitlen.simps [simp del]

text \<open>
  \<open>roundQ a b e\<close> is the double nearest to \<open>(a / b) * 2 ^ e\<close> for \<open>0 < b\<close>, ties going to
  the even significand: the rounding every arithmetic operation on doubles performs.
  With \<open>x\<close> the exponent at which the quotient has 53 bits before the binary point, the
  quotient \<open>\<bar>a\<bar> / (b * 2 ^ x)\<close> is rounded to an integer.
\<close>

definition scaleNum :: "int \<Rightarrow> int \<Rightarrow> int" where
  "scaleNum p x = (if 0 \<le> x then p else p * 2 ^ nat (- x))"

definition scaleDen :: "int \<Rightarrow> int \<Rightarrow> int" where
  "scaleDen b x = (if 0 \<le> x then b * 2 ^ nat x else b)"

definition pickExp :: "int \<Rightarrow> int \<Rightarrow> int \<Rightarrow> int" where
  "pickExp p b x = (if scaleNum p x div scaleDen b x < 2 ^ 53 then x else x + 1)"

definition roundEven :: "int \<Rightarrow> int \<Rightarrow> int" where
  "roundEven n d =
     (if d < 2 * (n mod d) \<or> (2 * (n mod d) = d \<and> odd (n div d)) then n div d + 1
      else n div d)"

definition pack :: "bool \<Rightarrow> int \<Rightarrow> int \<Rightarrow> jsnum" where
  "pack neg q x =
     (if q = 2 ^ 53 then Num (if neg then - (2 ^ 52) else 2 ^ 52) (x + 1)
      else Num (if neg then - q else q) x)"

definition roundAt :: "int \<Rightarrow> int \<Rightarrow> int \<Rightarrow> int \<Rightarrow> jsnum" where
  "roundAt a b e x = pack (a < 0) (roundEven (scaleNum \<bar>a\<bar> x) (scaleDen b x)) (x + e)"

definition roundQ :: "int \<Rightarrow> int \<Rightarrow> int \<Rightarrow> jsnum" where
  "roundQ a b e =
     (if a = 0 then Num 0 0
      else roundAt a b e (pickExp \<bar>a\<bar> b (bitlen \<bar>a\<bar> - bitlen b - 53)))"

text \<open>The literal \<^verbatim>\<open>1.0\<close>.\<close>

definition jsOne :: jsnum where
  "jsOne = Num (2 ^ 52) (- 52)"

text \<open>
  An integer-valued number, as \<^verbatim>\<open>parseInt\<close> and \<^verbatim>\<open>Math.floor\<close> return it, is an
  \<open>int option\<close>: \<open>None\<close> is \<^verbatim>\<open>NaN\<close>.  \<open>divInt n k\<close> is \<^verbatim>\<open>n / k\<close> for such a number (of
  magnitude below \<open>2 ^ 53\<close>, so that \<open>n\<close> is the double itself) and \<open>0 < k\<close>;
  \<open>mulInt v k\<close> is \<^verbatim>\<open>v * k\<close>.
\<close>

fun divInt :: "int option \<Rightarrow> int \<Rightarrow> jsnum" where
  "divInt None k = NaN"
| "divInt (Some n) k = roundQ n k 0"

fun mulInt :: "jsnum \<Rightarrow> int \<Rightarrow> jsnum" where
  "mulInt NaN k = NaN"
| "mulInt (Num m e) k = roundQ (m * k) 1 e"

fun Math_floor :: "jsnum \<Rightarrow> int option" where
  "Math_floor NaN = None"
| "Math_floor (Num m e) = Some (if 0 \<le> e then m * 2 ^ nat e else m div 2 ^ nat (- e))"

text \<open>\<^verbatim>\<open>v < k\<close> for an integer \<open>k\<close>; a comparison with \<^verbatim>\<open>NaN\<close> is false.\<close>

fun lessInt :: "jsnum \<Rightarrow> int \<Rightarrow> bool" where
  "lessInt NaN k = False"
| "lessInt (Num m e) k = (if 0 \<le> e then m * 2 ^ nat e < k else m < k * 2 ^ nat (- e))"

section \<open>Strings\<close>

definition digitChar :: "nat \<Rightarrow> char" where
  "digitChar d = ''0123456789abcdefghijklmnopqrstuvwxyz'' ! d"

function digits :: "nat \<Rightarrow> nat \<Rightarrow> string" where
  "digits b n = (if n < b \<or> b < 2 then [digitChar n] else digits b (n div b) @ [digitChar (n mod b)])"
  by pat_completeness auto
termination
  by (relation "measure snd") auto

declare digits.simps [simp del]

text \<open>
  \<^verbatim>\<open>Number.prototype.toString(radix)\<close> and the conversion of a template literal, for an
  integer-valued number (in radix 10 for a magnitude below \<open>10 ^ 21\<close>, where JavaScript
  switches to the exponent notation).
\<close>

fun Number_toString :: "nat \<Rightarrow> int option \<Rightarrow> string" where
  "Number_toString b None = ''NaN''"
| "Number_toString b (Some n) = (if n < 0 then CHR ''-'' # digits b (nat (- n)) else digits b (nat n))"

definition padStart :: "nat \<Rightarrow> char \<Rightarrow> string \<Rightarrow> string" where
  "padStart n c s = replicate (n - length s) c @ s"

definition slice :: "nat \<Rightarrow> nat \<Rightarrow> string \<Rightarrow> string" where
  "slice a b s = take (b - a) (drop a s)"

text \<open>Case conversion, on the letters of ASCII (the strings converted here are ASCII).\<close>

definition upperChar :: "char \<Rightarrow> char" where
  "upperChar c =
     (if 97 \<le> (of_char c :: nat) \<and> (of_char c :: nat) \<le> 122 then char_of (of_char c - 32 :: nat)
      else c)"

definition lowerChar :: "char \<Rightarrow> char" where
  "lowerChar c =
     (if 65 \<le> (of_char c :: nat) \<and> (of_char c :: nat) \<le> 90 then char_of (of_char c + 32 :: nat)
      else c)"

definition toUpperCase :: "string \<Rightarrow> string" where
  "toUpperCase s = map upperChar s"

definition toLowerCase :: "string \<Rightarrow> string" where
  "toLowerCase s = map lowerChar s"

text \<open>
  \<^verbatim>\<open>parseInt(s, radix)\<close>: leading white space is skipped, a sign is read, with radix 16 a
  prefix \<^verbatim>\<open>0x\<close> or \<^verbatim>\<open>0X\<close> is skipped, and the longest run of digits of the radix is
  read; no digit gives \<^verbatim>\<open>NaN\<close>.
\<close>

definition digitValue :: "char \<Rightarrow> nat" where
  "digitValue c =
     (if inClass [(48, 57)] c then of_char c - 48
      else if inClass [(97, 122)] c then of_char c - 87
      else if inClass [(65, 90)] c then of_char c - 55
      else 36)"

definition digitsValue :: "nat \<Rightarrow> string \<Rightarrow> nat" where
  "digitsValue b ds = foldl (\<lambda>acc c. acc * b + digitValue c) 0 ds"

definition parseDigits :: "nat \<Rightarrow> string \<Rightarrow> nat option" where
  "parseDigits b s =
     (if takeWhile (\<lambda>c. digitValue c < b) s = [] then None
      else Some (digitsValue b (takeWhile (\<lambda>c. digitValue c < b) s)))"

definition stripHexPrefix :: "nat \<Rightarrow> string \<Rightarrow> string" where
  "stripHexPrefix b s = (if b = 16 \<and> (take 2 s = ''0x'' \<or> take 2 s = ''0X'') then drop 2 s else s)"

fun parseSigned :: "nat \<Rightarrow> string \<Rightarrow> int option" where
  "parseSigned b [] = None"
| "parseSigned b (c # s) =
     (if c = CHR ''-'' then map_option (\<lambda>n. - int n) (parseDigits b (stripHexPrefix b s))
      else if c = CHR ''+'' then map_option int (parseDigits b (stripHexPrefix b s))
      else map_option int (parseDigits b (stripHexPrefix b (c # s))))"

definition parseInt :: "string \<Rightarrow> nat \<Rightarrow> int option" where
  "parseInt s b = parseSigned b (dropWhile (inClass whitespace) s)"

section \<open>The colour codec\<close>

text \<open>The protocol's \<^verbatim>\<open>Color\<close>: four numbers.\<close>

record Color =
  red :: jsnum
  green :: jsnum
  blue :: jsnum
  alpha :: jsnum

datatype casing = Uppercase | Lowercase

definition convertShortHexCodeToFullHexCode :: "string \<Rightarrow> string" where
  "convertShortHexCodeToFullHexCode color = CHR ''#'' # concat (map (\<lambda>hex. [hex, hex]) (drop 1 color))"

definition parseFull :: "string \<Rightarrow> Color" where
  "parseFull color =
     \<lparr>red = divInt (parseInt (slice 1 3 color) 16) 255,
      green = divInt (parseInt (slice 3 5 color) 16) 255,
      blue = divInt (parseInt (slice 5 7 color) 16) 255,
      alpha = (if length color = 9 then divInt (parseInt (slice 7 9 color) 16) 255 else jsOne)\<rparr>"

definition parseColor :: "string \<Rightarrow> Color" where
  "parseColor color =
     parseFull (if length color < 6 then convertShortHexCodeToFullHexCode color else color)"

definition valueToCode :: "jsnum \<Rightarrow> string" where
  "valueToCode val =
     (if length (Number_toString 16 (Math_floor (mulInt val 255))) = 1
      then CHR ''0'' # Number_toString 16 (Math_floor (mulInt val 255))
      else Number_toString 16 (Math_floor (mulInt val 255)))"

definition stringifyColor :: "Color \<Rightarrow> casing \<Rightarrow> string" where
  "stringifyColor color cas =
     (if cas = Lowercase then toLowerCase else toUpperCase)
       (''#'' @ valueToCode (red color) @ valueToCode (green color) @ valueToCode (blue color) @
        (if lessInt (alpha color) 1 then valueToCode (alpha color) else []))"

definition colorToRgbArray :: "Color \<Rightarrow> string" where
  "colorToRgbArray color =
     ''{'' @ Number_toString 10 (Math_floor (mulInt (red color) 255)) @ '','' @
     Number_toString 10 (Math_floor (mulInt (green color) 255)) @ '','' @
     Number_toString 10 (Math_floor (mulInt (blue color) 255)) @ ''}''"

section \<open>Documents, settings and the server's state\<close>

record Position =
  line :: nat
  character :: nat

record Range =
  range_start :: Position
  range_end :: Position

text \<open>
  A \<^verbatim>\<open>TextDocument\<close> of the language-server library, by the methods the server calls:
  \<^verbatim>\<open>getText()\<close>, \<^verbatim>\<open>positionAt(offset)\<close> and \<^verbatim>\<open>getText(range)\<close>.  The library is not
  part of the repository, so the two position methods are fields of the document.
\<close>

record TextDocument =
  uri :: string
  languageId :: string
  getText :: string
  positionAt :: "nat \<Rightarrow> Position"
  getTextIn :: "Range \<Rightarrow> string"

record JSONColorTokenSettings =
  maxNumberOfColorTokens :: int
  colorTokenCasing :: casing
  languages :: "string list"
  cssLanguages :: "string list"

definition defaultSettings :: JSONColorTokenSettings where
  "defaultSettings =
     \<lparr>maxNumberOfColorTokens = 1000, colorTokenCasing = Uppercase,
      languages = [''json'', ''jsonc'', ''cpp'', ''c++''], cssLanguages = [''css'', ''less'']\<rparr>"

definition maxNumberOfColorTokensNotificationNamespace :: string where
  "maxNumberOfColorTokensNotificationNamespace = ''JSONCOLORTOKEN.maxNumberOfColorTokens''"

text \<open>A value of \<^verbatim>\<open>JSON.parse\<close>.\<close>

datatype json =
    JNull
  | JBool bool
  | JNumber jsnum
  | JString string
  | JArray "json list"
  | JObject "(string \<times> json) list"

text \<open>
  What the server keeps of a property read \<^verbatim>\<open>jsonObj[variableName]\<close>: the string, when the
  value is one, and otherwise only that \<^verbatim>\<open>typeof\<close> is not \<^verbatim>\<open>"string"\<close> (\<^verbatim>\<open>undefined\<close>, a
  number, a boolean, \<^verbatim>\<open>null\<close>, an object, or a function inherited from a prototype).
\<close>

datatype jsvalue = NotAString | StringValue string

datatype js_error = SyntaxError | TypeError

fun jsonValue :: "json \<Rightarrow> jsvalue" where
  "jsonValue (JString s) = StringValue s"
| "jsonValue j = NotAString"

text \<open>An array index as a property name: the decimal digits of the index, nothing else.\<close>

definition arrayIndex :: "string \<Rightarrow> nat option" where
  "arrayIndex name =
     (if name \<noteq> [] \<and> list_all (inClass [(48, 57)]) name \<and> digits 10 (digitsValue 10 name) = name
      then Some (digitsValue 10 name) else None)"

text \<open>
  \<^verbatim>\<open>jsonObj[variableName]\<close>.  Reading a property of \<^verbatim>\<open>null\<close> throws a \<^verbatim>\<open>TypeError\<close>.  An
  object has its own properties (the list holds each key once); an array and a string have
  their elements under the index names.  Every other property, own or inherited, is not
  a string.
\<close>

fun getProperty :: "json \<Rightarrow> string \<Rightarrow> js_error + jsvalue" where
  "getProperty JNull name = Inl TypeError"
| "getProperty (JObject kvs) name =
     Inr (case map_of kvs name of None \<Rightarrow> NotAString | Some v \<Rightarrow> jsonValue v)"
| "getProperty (JArray vs) name =
     Inr (case arrayIndex name of
            None \<Rightarrow> NotAString
          | Some i \<Rightarrow> if i < length vs then jsonValue (vs ! i) else NotAString)"
| "getProperty (JString s) name =
     Inr (case arrayIndex name of
            None \<Rightarrow> NotAString
          | Some i \<Rightarrow> if i < length s then StringValue [s ! i] else NotAString)"
| "getProperty j name = Inr NotAString"

text \<open>The value of one variable in the cache: \<^verbatim>\<open>{ color: string, range: Range }\<close>.\<close>

record CachedVariable =
  cv_color :: string
  cv_range :: Range

text \<open>
  The object \<^verbatim>\<open>colorTokenObj\<close>, one entry of the cache.  It is an ordinary JavaScript
  object: it has its own properties, and it inherits from its prototype.  The prototype is
  \<^verbatim>\<open>Object.prototype\<close>, unless the assignment \<^verbatim>\<open>colorTokenObj["__proto__"] = v\<close> has
  replaced it by \<open>v\<close> (the setter of \<^verbatim>\<open>Object.prototype.__proto__\<close>): \<open>proto\<close> is then
  \<open>Some v\<close>.
\<close>

record CacheEntry =
  own :: "(string \<times> CachedVariable) list"
  proto :: "CachedVariable option"

definition emptyEntry :: CacheEntry where
  "emptyEntry = \<lparr>own = [], proto = None\<rparr>"

text \<open>\<^verbatim>\<open>colorTokenObj[variableName] = value\<close>\<close>

definition setVariable :: "CacheEntry \<Rightarrow> string \<Rightarrow> CachedVariable \<Rightarrow> CacheEntry" where
  "setVariable obj name v =
     (if name = ''__proto__'' then obj\<lparr>proto := Some v\<rparr>
      else obj\<lparr>own := AList.update name v (own obj)\<rparr>)"

text \<open>
  The result of reading \<^verbatim>\<open>colorTokenCache[uri][variableName]\<close>: \<open>Falsy\<close> (\<^verbatim>\<open>undefined\<close> or
  the empty string), a cached variable, or \<open>Foreign\<close>: a truthy value that has neither a
  \<^verbatim>\<open>color\<close> nor a \<^verbatim>\<open>range\<close> (a function of \<^verbatim>\<open>Object.prototype\<close>, or a property of a
  prototype that was replaced).
\<close>

datatype property = Falsy | Variable CachedVariable | Foreign

text \<open>The properties every object inherits from \<^verbatim>\<open>Object.prototype\<close>, \<^verbatim>\<open>__proto__\<close> apart.\<close>

definition objectPrototypeNames :: "string list" where
  "objectPrototypeNames =
     [''constructor'', ''hasOwnProperty'', ''isPrototypeOf'', ''propertyIsEnumerable'',
      ''toLocaleString'', ''toString'', ''valueOf'', ''__defineGetter__'', ''__defineSetter__'',
      ''__lookupGetter__'', ''__lookupSetter__'']"

definition inherited :: "CachedVariable option \<Rightarrow> string \<Rightarrow> property" where
  "inherited pr name =
     (if name = ''__proto__'' then (case pr of None \<Rightarrow> Foreign | Some v \<Rightarrow> Variable v)
      else if pr \<noteq> None \<and> name = ''color'' then (if cv_color (the pr) = [] then Falsy else Foreign)
      else if pr \<noteq> None \<and> name = ''range'' then Foreign
      else if name \<in> set objectPrototypeNames then Foreign
      else Falsy)"

definition getVariable :: "CacheEntry \<Rightarrow> string \<Rightarrow> property" where
  "getVariable obj name =
     (case map_of (own obj) name of Some v \<Rightarrow> Variable v | None \<Rightarrow> inherited (proto obj) name)"

definition truthy :: "property \<Rightarrow> bool" where
  "truthy p = (p \<noteq> Falsy)"

text \<open>\<^verbatim>\<open>p.color\<close> and \<^verbatim>\<open>p.range\<close> of a truthy property; \<open>None\<close> is \<^verbatim>\<open>undefined\<close>.\<close>

fun colorOf :: "property \<Rightarrow> string option" where
  "colorOf (Variable v) = Some (cv_color v)"
| "colorOf p = None"

fun rangeOf :: "property \<Rightarrow> Range option" where
  "rangeOf (Variable v) = Some (cv_range v)"
| "rangeOf p = None"

text \<open>
  The server's variables.  \<open>colorTokenCache\<close> lists the documents in the order of
  \<^verbatim>\<open>Object.keys\<close>, the order in which they entered the cache (a document URI has a scheme,
  so it is neither an array index nor an inherited name).
\<close>

record server_state =
  colorTokenCache :: "(string \<times> CacheEntry) list"
  cachedLanguages :: "string list option"
  cachedCSSLanguages :: "string list option"
  hasConfigurationCapability :: bool

text \<open>
  What the server's surroundings answer: the client's configuration
  (\<^verbatim>\<open>connection.workspace.getConfiguration\<close>, taken to answer), \<^verbatim>\<open>JSON.parse\<close> of the
  runtime (\<open>None\<close> when it throws a \<^verbatim>\<open>SyntaxError\<close>) and the open documents
  (\<^verbatim>\<open>documents.get\<close>).
\<close>

record environment =
  remoteConfiguration :: JSONColorTokenSettings
  JSON_parse :: "string \<Rightarrow> json option"
  documents :: "string \<Rightarrow> TextDocument option"

section \<open>The server\<close>

definition fetchLanguages :: "environment \<Rightarrow> server_state \<Rightarrow> server_state" where
  "fetchLanguages env st =
     st\<lparr>cachedLanguages := Some (languages (remoteConfiguration env)),
        cachedCSSLanguages := Some (cssLanguages (remoteConfiguration env))\<rparr>"

definition isColorLanguage :: "environment \<Rightarrow> server_state \<Rightarrow> string \<Rightarrow> bool \<times> server_state" where
  "isColorLanguage env st lang =
     (case (cachedLanguages st, cachedCSSLanguages st) of
        (Some ls, Some cs) \<Rightarrow> (lang \<notin> set cs \<and> lang \<in> set ls, st)
      | _ \<Rightarrow> (lang \<notin> set (cssLanguages (remoteConfiguration env)) \<and>
              lang \<in> set (languages (remoteConfiguration env)), fetchLanguages env st))"

definition isCSSLanguage :: "environment \<Rightarrow> server_state \<Rightarrow> string \<Rightarrow> bool \<times> server_state" where
  "isCSSLanguage env st lang =
     (case cachedCSSLanguages st of
        Some cs \<Rightarrow> (lang \<in> set cs, st)
      | None \<Rightarrow> (lang \<in> set (cssLanguages (remoteConfiguration env)),
                 st\<lparr>cachedCSSLanguages := Some (cssLanguages (remoteConfiguration env))\<rparr>))"

definition getGlobalSettings :: "environment \<Rightarrow> server_state \<Rightarrow> JSONColorTokenSettings" where
  "getGlobalSettings env st =
     (if \<not> hasConfigurationCapability st then defaultSettings else remoteConfiguration env)"

text \<open>\<^verbatim>\<open>regex.test(token)\<close> on a fresh regular expression: is there a match anywhere.\<close>

fun isColorToken :: "jsvalue \<Rightarrow> bool" where
  "isColorToken (StringValue token) = (exec colorTokenPattern token \<noteq> None)"
| "isColorToken NotAString = False"

definition rangeOfSpan :: "TextDocument \<Rightarrow> nat \<Rightarrow> nat \<Rightarrow> Range" where
  "rangeOfSpan doc i n = \<lparr>range_start = positionAt doc i, range_end = positionAt doc (i + n)\<rparr>"

text \<open>
  \<^verbatim>\<open>m.groups?.varDoulbeQuote ?? m.groups?.varSingleQuote\<close>, and the test
  \<^verbatim>\<open>!!variableName\<close>, which an absent or empty name fails.
\<close>

definition variableNameOf :: "rmatch \<Rightarrow> string option" where
  "variableNameOf m = (case grp m 3 of Some v \<Rightarrow> Some v | None \<Rightarrow> grp m 5)"

text \<open>The loop over the keys of \<^verbatim>\<open>updateColorTokenCache\<close>, one step for each match.\<close>

fun keyLoop :: "TextDocument \<Rightarrow> json \<Rightarrow> rmatch list \<Rightarrow> CacheEntry \<Rightarrow> js_error + CacheEntry" where
  "keyLoop doc jsonObj [] obj = Inr obj"
| "keyLoop doc jsonObj (m # todo) obj =
     (case variableNameOf m of
        None \<Rightarrow> keyLoop doc jsonObj todo obj
      | Some variableName \<Rightarrow>
          if variableName = [] then keyLoop doc jsonObj todo obj
          else case getProperty jsonObj variableName of
                 Inl e \<Rightarrow> Inl e
               | Inr v \<Rightarrow>
                   (case v of
                      StringValue c \<Rightarrow>
                        if isColorToken v
                        then keyLoop doc jsonObj todo
                               (setVariable obj variableName
                                  \<lparr>cv_color = c,
                                   cv_range = rangeOfSpan doc (index m) (length variableName)\<rparr>)
                        else keyLoop doc jsonObj todo obj
                    | NotAString \<Rightarrow> keyLoop doc jsonObj todo obj))"

text \<open>
  The body of the \<^verbatim>\<open>try\<close> block: an exception (\<open>Inl\<close>), or the new entry of the document,
  if there is one to store.
\<close>

definition tryUpdate :: "environment \<Rightarrow> TextDocument \<Rightarrow> js_error + CacheEntry option" where
  "tryUpdate env doc =
     (if languageId doc = ''json'' \<or> languageId doc = ''jsonc'' then
        (case JSON_parse env (getText doc) of
           None \<Rightarrow> Inl SyntaxError
         | Some jsonObj \<Rightarrow>
             (case keyLoop doc jsonObj (execAll jsonKeyPattern (getText doc)) emptyEntry of
                Inl e \<Rightarrow> Inl e
              | Inr obj \<Rightarrow> Inr (Some obj)))
      else Inr None)"

text \<open>
  \<^verbatim>\<open>updateColorTokenCache\<close>.  The \<^verbatim>\<open>catch\<close> clause swallows every exception of the
  \<^verbatim>\<open>try\<close> block, so the function has no failing result.
\<close>

definition storeEntry :: "server_state \<Rightarrow> string \<Rightarrow> js_error + CacheEntry option \<Rightarrow> server_state" where
  "storeEntry st u r =
     (case r of
        Inr (Some obj) \<Rightarrow> st\<lparr>colorTokenCache := AList.update u obj (colorTokenCache st)\<rparr>
      | _ \<Rightarrow> st)"

definition updateColorTokenCache :: "environment \<Rightarrow> server_state \<Rightarrow> TextDocument \<Rightarrow> server_state" where
  "updateColorTokenCache env st doc =
     (if fst (isColorLanguage env st (languageId doc))
      then storeEntry (snd (isColorLanguage env st (languageId doc))) (uri doc) (tryUpdate env doc)
      else snd (isColorLanguage env st (languageId doc)))"

text \<open>A colour token, \<^verbatim>\<open>IColors\<close>; the colour \<open>None\<close> is \<^verbatim>\<open>undefined\<close>.\<close>

record IColors =
  ic_range :: Range
  ic_color :: "string option"

datatype notification = Notification string int

text \<open>
  The two capped loops of \<^verbatim>\<open>findColorTokens\<close>: the matches still to come, the counter
  \<^verbatim>\<open>numTokens\<close> and the tokens pushed so far.
\<close>

fun hexLoop :: "int \<Rightarrow> TextDocument \<Rightarrow> rmatch list \<Rightarrow> int \<Rightarrow> IColors list \<Rightarrow> int \<times> IColors list" where
  "hexLoop cap doc [] numTokens colors = (numTokens, colors)"
| "hexLoop cap doc (m # todo) numTokens colors =
     (if numTokens < cap
      then hexLoop cap doc todo (numTokens + 1)
             (colors @ [\<lparr>ic_range = rangeOfSpan doc (index m) (length (matched m)),
                         ic_color = Some (matched m)\<rparr>])
      else (numTokens, colors))"

text \<open>
  \<^verbatim>\<open>r.toString(16).padStart(2, '0')\<close> of a captured component; a group that is absent
  reads as \<^verbatim>\<open>parseInt(undefined, 10)\<close>, which is \<^verbatim>\<open>NaN\<close>.
\<close>

definition componentHex :: "rmatch \<Rightarrow> nat \<Rightarrow> string" where
  "componentHex m i =
     padStart 2 CHR ''0''
       (Number_toString 16 (case grp m i of None \<Rightarrow> None | Some g \<Rightarrow> parseInt g 10))"

definition hexColorOf :: "rmatch \<Rightarrow> string" where
  "hexColorOf m = ''#'' @ componentHex m 2 @ componentHex m 5 @ componentHex m 8"

fun rgbLoop :: "int \<Rightarrow> TextDocument \<Rightarrow> rmatch list \<Rightarrow> int \<Rightarrow> IColors list \<Rightarrow> int \<times> IColors list" where
  "rgbLoop cap doc [] numTokens colors = (numTokens, colors)"
| "rgbLoop cap doc (m # todo) numTokens colors =
     (if numTokens < cap
      then rgbLoop cap doc todo (numTokens + 1)
             (colors @ [\<lparr>ic_range = rangeOfSpan doc (index m) (length (matched m)),
                         ic_color = Some (hexColorOf m)\<rparr>])
      else (numTokens, colors))"

text \<open>
  \<^verbatim>\<open>Object.keys(colorTokenCache).find((uri) => !!colorTokenCache[uri][variableName])\<close>: the
  first document of the cache in which reading the name gives a truthy value.
\<close>

fun findDocument :: "(string \<times> CacheEntry) list \<Rightarrow> string \<Rightarrow> (string \<times> CacheEntry) option" where
  "findDocument [] name = None"
| "findDocument ((u, obj) # cache) name =
     (if truthy (getVariable obj name) then Some (u, obj) else findDocument cache name)"

text \<open>\<^verbatim>\<open>m.groups?.cssVar || ""\<close>\<close>

definition cssVarOf :: "rmatch \<Rightarrow> string" where
  "cssVarOf m = (case grp m 1 of None \<Rightarrow> [] | Some v \<Rightarrow> v)"

fun cssLoop :: "(string \<times> CacheEntry) list \<Rightarrow> TextDocument \<Rightarrow> rmatch list \<Rightarrow> IColors list \<Rightarrow> IColors list" where
  "cssLoop cache doc [] colors = colors"
| "cssLoop cache doc (m # todo) colors =
     (case findDocument cache (cssVarOf m) of
        None \<Rightarrow> cssLoop cache doc todo colors
      | Some (u, obj) \<Rightarrow>
          cssLoop cache doc todo
            (colors @ [\<lparr>ic_range = rangeOfSpan doc (index m) (length (matched m)),
                        ic_color = colorOf (getVariable obj (cssVarOf m))\<rparr>]))"

text \<open>The colour-language branch: both loops, then the notification.\<close>

definition isCpp :: "TextDocument \<Rightarrow> bool" where
  "isCpp doc = (languageId doc = ''cpp'' \<or> languageId doc = ''c++'')"

definition afterHex :: "int \<Rightarrow> TextDocument \<Rightarrow> int \<times> IColors list" where
  "afterHex cap doc = hexLoop cap doc (execAll colorTokenPattern (getText doc)) 0 []"

definition afterRgb :: "int \<Rightarrow> TextDocument \<Rightarrow> int \<times> IColors list" where
  "afterRgb cap doc =
     (if isCpp doc
      then rgbLoop cap doc (execAll rgbArrayPattern (getText doc))
             (fst (afterHex cap doc)) (snd (afterHex cap doc))
      else afterHex cap doc)"

definition capNotification :: "int \<Rightarrow> int \<Rightarrow> notification list" where
  "capNotification cap numTokens =
     (if numTokens = cap then [Notification maxNumberOfColorTokensNotificationNamespace cap]
      else [])"

text \<open>
  \<^verbatim>\<open>findColorTokens\<close>: the tokens returned, the notifications sent, and the state after
  the call.
\<close>

record found =
  colors :: "IColors list"
  sent :: "notification list"
  after :: server_state

definition findColorTokens :: "environment \<Rightarrow> server_state \<Rightarrow> TextDocument \<Rightarrow> found" where
  "findColorTokens env st doc =
     (if fst (isColorLanguage env st (languageId doc)) then
        \<lparr>colors = snd (afterRgb (maxNumberOfColorTokens (getGlobalSettings env st)) doc),
         sent = capNotification (maxNumberOfColorTokens (getGlobalSettings env st))
                  (fst (afterRgb (maxNumberOfColorTokens (getGlobalSettings env st)) doc)),
         after = snd (isColorLanguage env st (languageId doc))\<rparr>
      else if fst (isCSSLanguage env (snd (isColorLanguage env st (languageId doc))) (languageId doc)) then
        \<lparr>colors = cssLoop (colorTokenCache st) doc (execAll cssVariablePattern (getText doc)) [],
         sent = [],
         after = snd (isCSSLanguage env (snd (isColorLanguage env st (languageId doc))) (languageId doc))\<rparr>
      else
        \<lparr>colors = [], sent = [],
         after = snd (isCSSLanguage env (snd (isColorLanguage env st (languageId doc))) (languageId doc))\<rparr>)"

text \<open>
  \<^verbatim>\<open>connection.onDocumentColor\<close>: every token's colour is decoded; \<^verbatim>\<open>parseColor\<close> of
  \<^verbatim>\<open>undefined\<close> throws a \<^verbatim>\<open>TypeError\<close> on reading \<^verbatim>\<open>color.length\<close>.
\<close>

record ColorInformation =
  ci_range :: Range
  ci_color :: Color

fun decodeAll :: "IColors list \<Rightarrow> js_error + ColorInformation list" where
  "decodeAll [] = Inr []"
| "decodeAll (c # cs) =
     (case ic_color c of
        None \<Rightarrow> Inl TypeError
      | Some t \<Rightarrow>
          (case decodeAll cs of
             Inl e \<Rightarrow> Inl e
           | Inr is \<Rightarrow> Inr (\<lparr>ci_range = ic_range c, ci_color = parseColor t\<rparr> # is)))"

definition onDocumentColor :: "environment \<Rightarrow> server_state \<Rightarrow> string \<Rightarrow> js_error + ColorInformation list" where
  "onDocumentColor env st u =
     (case documents env u of
        None \<Rightarrow> Inr []
      | Some doc \<Rightarrow> decodeAll (colors (findColorTokens env st doc)))"

text \<open>
  \<^verbatim>\<open>connection.onDefinition\<close>: \<open>None\<close> is the result \<^verbatim>\<open>undefined\<close>; a location is a
  document's URI with the \<^verbatim>\<open>range\<close> read from the cache (\<open>None\<close> when that is
  \<^verbatim>\<open>undefined\<close>).
\<close>

definition lineRange :: "nat \<Rightarrow> Range" where
  "lineRange l =
     \<lparr>range_start = \<lparr>line = l, character = 0\<rparr>, range_end = \<lparr>line = l + 1, character = 0\<rparr>\<rparr>"

definition locationsOf :: "(string \<times> CacheEntry) list \<Rightarrow> string \<Rightarrow> (string \<times> Range option) list" where
  "locationsOf cache name =
     map (\<lambda>(u, obj). (u, rangeOf (getVariable obj name)))
       (filter (\<lambda>(u, obj). truthy (getVariable obj name)) cache)"

definition onDefinition ::
  "environment \<Rightarrow> server_state \<Rightarrow> string \<Rightarrow> Position \<Rightarrow> (string \<times> Range option) list option" where
  "onDefinition env st u position =
     (case documents env u of
        None \<Rightarrow> None
      | Some doc \<Rightarrow>
          if fst (isCSSLanguage env st (languageId doc))
          then (case exec cssVariablePattern (getTextIn doc (lineRange (line position))) of
                  None \<Rightarrow> None
                | Some m \<Rightarrow> Some (locationsOf (colorTokenCache st) (cssVarOf m)))
          else None)"

section \<open>Example documents\<close>

text \<open>The module's variables when the server starts.\<close>

definition initialState :: server_state where
  "initialState =
     \<lparr>colorTokenCache = [], cachedLanguages = None, cachedCSSLanguages = None,
      hasConfigurationCapability = False\<rparr>"

text \<open>A document of one line: offset \<open>i\<close> is character \<open>i\<close> of line 0.\<close>

definition oneLine :: "string \<Rightarrow> string \<Rightarrow> string \<Rightarrow> TextDocument" where
  "oneLine u lang text =
     \<lparr>uri = u, languageId = lang, getText = text,
      positionAt = (\<lambda>i. \<lparr>line = 0, character = i\<rparr>),
      getTextIn = (\<lambda>r. if line (range_start r) = 0 then text else [])\<rparr>"

text \<open>A client that answers the default settings, and a runtime whose parser is given.\<close>

definition client :: "(string \<Rightarrow> json option) \<Rightarrow> (string \<Rightarrow> TextDocument option) \<Rightarrow> environment" where
  "client parse docs =
     \<lparr>remoteConfiguration = defaultSettings, JSON_parse = parse, documents = docs\<rparr>"

text \<open>\<^verbatim>\<open>JSON.parse\<close> on the texts of the examples; every other text here is malformed.\<close>

definition exampleParse :: "string \<Rightarrow> json option" where
  \<open>exampleParse t =
     (if t = ''{}'' then Some (JObject [])
      else if t = ''{"a": "xx #fff yy"}'' then Some (JObject [(''a'', JString ''xx #fff yy'')])
      else if t = ''{"primary": "#336699"}'' then Some (JObject [(''primary'', JString ''#336699'')])
      else if t = ''{"a": {"b": "#fff"}, "c": "#abc"}''
        then Some (JObject [(''a'', JObject [(''b'', JString ''#fff'')]), (''c'', JString ''#abc'')])
      else None)\<close>

definition emptyJson :: TextDocument where
  "emptyJson = oneLine ''file:///tokens.json'' ''json'' ''{}''"

definition styleSheet :: TextDocument where
  "styleSheet = oneLine ''file:///style.css'' ''css'' ''a { color: var(--constructor); }''"

definition openDocs :: "string \<Rightarrow> TextDocument option" where
  "openDocs u =
     (if u = ''file:///tokens.json'' then Some emptyJson
      else if u = ''file:///style.css'' then Some styleSheet
      else None)"


definition strictJson :: TextDocument where
  \<open>strictJson = oneLine ''file:///tokens.json'' ''json'' ''{"a": "xx #fff yy"}''\<close>


definition brokenJson :: TextDocument where
  \<open>brokenJson = oneLine ''file:///tokens.json'' ''json'' ''{"primary": '' \<close>

definition primaryJson :: TextDocument where
  \<open>primaryJson = oneLine ''file:///tokens.json'' ''json'' ''{"primary": "#336699"}''\<close>

definition twoReferences :: TextDocument where
  "twoReferences = oneLine ''file:///style.css'' ''css'' ''var(--primary) var(--primary)''"

definition twoHex :: TextDocument where
  "twoHex = oneLine ''file:///two.json'' ''json'' ''#fff #000''"

text \<open>A server whose client answers configuration requests, with the cap set to 1.\<close>

definition capOne :: environment where
  "capOne =
     \<lparr>remoteConfiguration = defaultSettings\<lparr>maxNumberOfColorTokens := 1\<rparr>,
      JSON_parse = exampleParse, documents = openDocs\<rparr>"

definition configurable :: server_state where
  "configurable = initialState\<lparr>hasConfigurationCapability := True\<rparr>"

section \<open>Evaluation\<close>

lemma ms_Times_numeral:
  "ms (Times (numeral k) a) s = concat (map (ms (Times (pred_numeral k) a)) (ms a s))"
  by (simp add: numeral_eq_Suc)

lemmas re_eval = ms_Times_numeral execAll_def exec_def matchAt_def mkMatch_def grp_def chr1_def plus_def inClass_def
  hexDigit_def whitespace_def keyChar_def colorTokenPattern_def rgbInt_def rgbArrayPattern_def
  cssVariablePattern_def jsonKeyPattern_def

lemmas server_eval = initialState_def oneLine_def client_def defaultSettings_def
  updateColorTokenCache_def isColorLanguage_def isCSSLanguage_def fetchLanguages_def
  getGlobalSettings_def storeEntry_def tryUpdate_def findColorTokens_def emptyEntry_def
  variableNameOf_def setVariable_def getVariable_def inherited_def truthy_def
  objectPrototypeNames_def rangeOfSpan_def cssVarOf_def onDefinition_def locationsOf_def
  lineRange_def onDocumentColor_def afterHex_def afterRgb_def isCpp_def capNotification_def
  capOne_def configurable_def exampleParse_def openDocs_def

section \<open>The cache keeps its state when the parse fails\<close>

lemma isColorLanguage_cache:
  "colorTokenCache (snd (isColorLanguage env st lang)) = colorTokenCache st"
  by (simp add: isColorLanguage_def fetchLanguages_def split: option.splits)

lemma isCSSLanguage_cache:
  "colorTokenCache (snd (isCSSLanguage env st lang)) = colorTokenCache st"
  by (simp add: isCSSLanguage_def split: option.splits)

text \<open>
  C3.  When \<^verbatim>\<open>JSON.parse\<close> throws on the text of a json or jsonc document, the \<^verbatim>\<open>try\<close>
  block of \<^verbatim>\<open>updateColorTokenCache\<close> ends in the \<^verbatim>\<open>SyntaxError\<close>, the \<^verbatim>\<open>catch\<close> clause
  swallows it, and the whole token cache after the call is the cache before the call: the
  document's entry is neither cleared nor updated.
\<close>

theorem malformed_json_keeps_cache:
  assumes "languageId doc = ''json'' \<or> languageId doc = ''jsonc''"
    and "JSON_parse env (getText doc) = None"
  shows "tryUpdate env doc = Inl SyntaxError \<and>
         colorTokenCache (updateColorTokenCache env st doc) = colorTokenCache st"
  using assms
  by (auto simp: tryUpdate_def updateColorTokenCache_def storeEntry_def isColorLanguage_cache)

theorem malformed_json_keeps_cache_witness:
  "JSON_parse (client exampleParse openDocs) (getText brokenJson) = None \<and>
   colorTokenCache
     (updateColorTokenCache (client exampleParse openDocs)
        (updateColorTokenCache (client exampleParse openDocs) initialState primaryJson) brokenJson) =
   colorTokenCache (updateColorTokenCache (client exampleParse openDocs) initialState primaryJson) \<and>
   colorTokenCache (updateColorTokenCache (client exampleParse openDocs) initialState primaryJson) =
   [(''file:///tokens.json'',
     \<lparr>own = [(''primary'',
               \<lparr>cv_color = ''#336699'',
                cv_range = \<lparr>range_start = \<lparr>line = 0, character = 2\<rparr>,
                            range_end = \<lparr>line = 0, character = 9\<rparr>\<rparr>\<rparr>)],
      proto = None\<rparr>)]"
proof -
  have l: "languageId brokenJson = ''json'' \<or> languageId brokenJson = ''jsonc''"
    by (simp add: brokenJson_def oneLine_def)
  have p: "JSON_parse (client exampleParse openDocs) (getText brokenJson) = None"
    by (simp add: brokenJson_def oneLine_def client_def exampleParse_def)
  have c: "colorTokenCache (updateColorTokenCache (client exampleParse openDocs) initialState primaryJson) =
   [(''file:///tokens.json'',
     \<lparr>own = [(''primary'',
               \<lparr>cv_color = ''#336699'',
                cv_range = \<lparr>range_start = \<lparr>line = 0, character = 2\<rparr>,
                            range_end = \<lparr>line = 0, character = 9\<rparr>\<rparr>\<rparr>)],
      proto = None\<rparr>)]"
    by (simp add: server_eval primaryJson_def re_eval)
  from malformed_json_keeps_cache [OF l p] p c show ?thesis
    by simp
qed


section \<open>The triplet pattern and leading zeros\<close>



section \<open>References to names that every object inherits\<close>

text \<open>
  C4, at the failing input.  The json document \<^verbatim>\<open>{}\<close> has been opened, so the cache has
  one entry, which caches no variable.  In the style sheet
  \<^verbatim>\<open>a { color: var(--constructor); }\<close> the name \<^verbatim>\<open>constructor\<close> is cached in no document,
  but \<^verbatim>\<open>colorTokenCache[uri]["constructor"]\<close> is the function every object inherits, a
  truthy value: a token is emitted for the occurrence, its colour is \<^verbatim>\<open>undefined\<close>, and the
  colour request fails with the \<^verbatim>\<open>TypeError\<close> of \<^verbatim>\<open>parseColor\<close>.
\<close>

theorem inherited_name_emits_token:
  "colorTokenCache (updateColorTokenCache (client exampleParse openDocs) initialState emptyJson) =
     [(''file:///tokens.json'', \<lparr>own = [], proto = None\<rparr>)] \<and>
   colors (findColorTokens (client exampleParse openDocs)
     (updateColorTokenCache (client exampleParse openDocs) initialState emptyJson) styleSheet) =
     [\<lparr>ic_range = \<lparr>range_start = \<lparr>line = 0, character = 11\<rparr>,
                    range_end = \<lparr>line = 0, character = 29\<rparr>\<rparr>,
       ic_color = None\<rparr>] \<and>
   onDocumentColor (client exampleParse openDocs)
     (updateColorTokenCache (client exampleParse openDocs) initialState emptyJson)
     ''file:///style.css'' = Inl TypeError"
  by (simp add: server_eval emptyJson_def styleSheet_def re_eval)

text \<open>
  C9, at the failing input: the same two documents.  The definition request on line 0 of
  the style sheet returns a location for the json document, which does not cache the
  name \<^verbatim>\<open>constructor\<close>; the location's range is \<^verbatim>\<open>undefined\<close>.
\<close>

theorem inherited_name_has_definition:
  "onDefinition (client exampleParse openDocs)
     (updateColorTokenCache (client exampleParse openDocs) initialState emptyJson)
     ''file:///style.css'' \<lparr>line = 0, character = 0\<rparr> =
   Some [(''file:///tokens.json'', None)]"
  by (simp add: server_eval emptyJson_def styleSheet_def re_eval)

section \<open>Values that contain a colour token\<close>

text \<open>
  C6, at the failing input.  In the json document \<^verbatim>\<open>{"a": "xx #fff yy"}\<close> the value of
  the key \<^verbatim>\<open>a\<close> is not a hex colour literal, it only contains one; \<^verbatim>\<open>isColorToken\<close>
  searches the value for a match of the pattern, so the key is recorded, with the whole
  value as its colour.
\<close>

theorem containing_value_is_cached:
  "colorTokenCache (updateColorTokenCache (client exampleParse openDocs) initialState strictJson) =
     [(''file:///tokens.json'',
       \<lparr>own = [(''a'',
                 \<lparr>cv_color = ''xx #fff yy'',
                  cv_range = \<lparr>range_start = \<lparr>line = 0, character = 2\<rparr>,
                              range_end = \<lparr>line = 0, character = 3\<rparr>\<rparr>\<rparr>)],
        proto = None\<rparr>)] \<and>
   map matched (execAll colorTokenPattern ''xx #fff yy'') = [''#fff'']"
  by (simp add: server_eval strictJson_def re_eval)


section \<open>The cap on the number of tokens\<close>

lemma hexLoop_count:
  "n \<le> fst (hexLoop cap doc todo n cs) \<and> fst (hexLoop cap doc todo n cs) \<le> max n cap \<and>
   int (length (snd (hexLoop cap doc todo n cs))) =
     int (length cs) + (fst (hexLoop cap doc todo n cs) - n)"
proof (induction todo arbitrary: n cs)
  case Nil
  show ?case by simp
next
  case (Cons m todo)
  show ?case
  proof (cases "n < cap")
    case True
    with Cons [of "n + 1" "cs @ [\<lparr>ic_range = rangeOfSpan doc (index m) (length (matched m)),
        ic_color = Some (matched m)\<rparr>]"]
    show ?thesis by simp
  next
    case False
    then show ?thesis by simp
  qed
qed

lemma rgbLoop_count:
  "n \<le> fst (rgbLoop cap doc todo n cs) \<and> fst (rgbLoop cap doc todo n cs) \<le> max n cap \<and>
   int (length (snd (rgbLoop cap doc todo n cs))) =
     int (length cs) + (fst (rgbLoop cap doc todo n cs) - n)"
proof (induction todo arbitrary: n cs)
  case Nil
  show ?case by simp
next
  case (Cons m todo)
  show ?case
  proof (cases "n < cap")
    case True
    with Cons [of "n + 1" "cs @ [\<lparr>ic_range = rangeOfSpan doc (index m) (length (matched m)),
        ic_color = Some (hexColorOf m)\<rparr>]"]
    show ?thesis by simp
  next
    case False
    then show ?thesis by simp
  qed
qed

lemma afterRgb_count:
  "int (length (snd (afterRgb cap doc))) = fst (afterRgb cap doc) \<and>
   fst (afterRgb cap doc) \<le> max 0 cap"
proof -
  let ?h = "afterHex cap doc"
  have h: "0 \<le> fst ?h \<and> fst ?h \<le> max 0 cap \<and> int (length (snd ?h)) = fst ?h"
    using hexLoop_count [of 0 cap doc "execAll colorTokenPattern (getText doc)" "[]"]
    by (simp add: afterHex_def)
  show ?thesis
  proof (cases "isCpp doc")
    case True
    with h rgbLoop_count [of "fst ?h" cap doc "execAll rgbArrayPattern (getText doc)" "snd ?h"]
    show ?thesis by (simp add: afterRgb_def) linarith
  next
    case False
    with h show ?thesis by (simp add: afterRgb_def)
  qed
qed

text \<open>
  C1, as stated: the cap bounds the tokens of every document, reference-language documents
  included.  With the cap set to 1, the style sheet \<^verbatim>\<open>var(--primary) var(--primary)\<close> gets
  two tokens from a cache that defines \<^verbatim>\<open>primary\<close>.
\<close>

theorem references_exceed_cap:
  "maxNumberOfColorTokens (getGlobalSettings capOne configurable) = 1 \<and>
   length (colors (findColorTokens capOne
     (updateColorTokenCache capOne configurable primaryJson) twoReferences)) = 2"
  by (simp add: server_eval primaryJson_def twoReferences_def re_eval)

text \<open>
  C1, amended.  For every document that does not take the reference-language branch (a
  colour-language document, or a document of neither kind) and every settings value, the
  token list has at most \<open>maxNumberOfColorTokens\<close> elements, and none when that number is
  negative.  The tokens of a reference-language document are not capped.
\<close>

theorem color_tokens_capped:
  assumes "fst (isColorLanguage env st (languageId doc)) \<or>
           \<not> fst (isCSSLanguage env (snd (isColorLanguage env st (languageId doc))) (languageId doc))"
  shows "int (length (colors (findColorTokens env st doc))) \<le>
         max 0 (maxNumberOfColorTokens (getGlobalSettings env st))"
  using assms afterRgb_count [of "maxNumberOfColorTokens (getGlobalSettings env st)" doc]
  by (auto simp: findColorTokens_def)

theorem color_tokens_capped_witness:
  "fst (isColorLanguage capOne configurable (languageId twoHex)) \<and>
   length (execAll colorTokenPattern (getText twoHex)) = 2 \<and>
   int (length (colors (findColorTokens capOne configurable twoHex))) \<le>
   max 0 (maxNumberOfColorTokens (getGlobalSettings capOne configurable))"
proof -
  have c: "fst (isColorLanguage capOne configurable (languageId twoHex))"
    by (simp add: server_eval twoHex_def)
  have n: "length (execAll colorTokenPattern (getText twoHex)) = 2"
    by (simp add: twoHex_def oneLine_def re_eval)
  from color_tokens_capped [of capOne configurable twoHex] c n show ?thesis
    by simp
qed

lemma hexLoop_full:
  "0 \<le> n \<Longrightarrow> n \<le> cap \<Longrightarrow> cap - n \<le> int (length todo) \<Longrightarrow>
   fst (hexLoop cap doc todo n cs) = cap \<and>
   length (snd (hexLoop cap doc todo n cs)) = length cs + nat (cap - n)"
proof (induction todo arbitrary: n cs)
  case Nil
  then show ?case by simp
next
  case (Cons m todo)
  show ?case
  proof (cases "n < cap")
    case True
    with Cons.prems
    have "fst (hexLoop cap doc todo (n + 1) (cs @ [\<lparr>ic_range = rangeOfSpan doc (index m) (length (matched m)),
        ic_color = Some (matched m)\<rparr>])) = cap \<and>
      length (snd (hexLoop cap doc todo (n + 1) (cs @ [\<lparr>ic_range = rangeOfSpan doc (index m) (length (matched m)),
        ic_color = Some (matched m)\<rparr>]))) =
      length (cs @ [\<lparr>ic_range = rangeOfSpan doc (index m) (length (matched m)),
        ic_color = Some (matched m)\<rparr>]) + nat (cap - (n + 1))"
      by (intro Cons.IH) simp_all
    with True Cons.prems show ?thesis by (simp add: nat_diff_distrib)
  next
    case False
    with Cons.prems show ?thesis by simp
  qed
qed

lemma rgbLoop_at_cap: "rgbLoop cap doc todo cap cs = (cap, cs)"
  by (cases todo) simp_all

text \<open>
  C5.  The settings hold a count, \<open>0 \<le> maxNumberOfColorTokens\<close>.  For a colour-language
  document whose text has \<open>maxNumberOfColorTokens + k\<close> matches of the hex pattern,
  \<open>1 \<le> k\<close>, \<^verbatim>\<open>findColorTokens\<close> returns exactly \<open>maxNumberOfColorTokens\<close> tokens (in a
  C++ document the triplet loop adds none) and sends the cap notification once, with the
  cap as its count.
\<close>

theorem cap_reached_notifies_once:
  assumes "fst (isColorLanguage env st (languageId doc))"
    and "0 \<le> maxNumberOfColorTokens (getGlobalSettings env st)"
    and "1 \<le> k"
    and "length (execAll colorTokenPattern (getText doc)) =
         nat (maxNumberOfColorTokens (getGlobalSettings env st)) + k"
  shows "length (colors (findColorTokens env st doc)) =
           nat (maxNumberOfColorTokens (getGlobalSettings env st)) \<and>
         sent (findColorTokens env st doc) =
           [Notification maxNumberOfColorTokensNotificationNamespace
              (maxNumberOfColorTokens (getGlobalSettings env st))]"
proof -
  let ?cap = "maxNumberOfColorTokens (getGlobalSettings env st)"
  have h: "fst (afterHex ?cap doc) = ?cap \<and> length (snd (afterHex ?cap doc)) = nat ?cap"
    using hexLoop_full [of 0 ?cap "execAll colorTokenPattern (getText doc)" doc "[]"] assms
    by (simp add: afterHex_def)
  have "rgbLoop ?cap doc (execAll rgbArrayPattern (getText doc))
          (fst (afterHex ?cap doc)) (snd (afterHex ?cap doc)) = afterHex ?cap doc"
    using h rgbLoop_at_cap [of ?cap doc "execAll rgbArrayPattern (getText doc)" "snd (afterHex ?cap doc)"]
    by (simp add: prod_eq_iff)
  then have r: "afterRgb ?cap doc = afterHex ?cap doc"
    by (simp add: afterRgb_def)
  from assms(1) h r show ?thesis
    by (simp add: findColorTokens_def capNotification_def)
qed

theorem cap_reached_notifies_once_witness:
  "fst (isColorLanguage capOne configurable (languageId twoHex)) \<and>
   maxNumberOfColorTokens (getGlobalSettings capOne configurable) = 1 \<and>
   length (execAll colorTokenPattern (getText twoHex)) = 1 + 1 \<and>
   length (colors (findColorTokens capOne configurable twoHex)) = 1 \<and>
   sent (findColorTokens capOne configurable twoHex) =
     [Notification maxNumberOfColorTokensNotificationNamespace 1]"
proof -
  have c: "fst (isColorLanguage capOne configurable (languageId twoHex))"
    by (simp add: server_eval twoHex_def)
  have m: "maxNumberOfColorTokens (getGlobalSettings capOne configurable) = 1"
    by (simp add: server_eval)
  have n: "length (execAll colorTokenPattern (getText twoHex)) =
      nat (maxNumberOfColorTokens (getGlobalSettings capOne configurable)) + 1"
    by (simp add: m) (simp add: twoHex_def oneLine_def re_eval)
  from cap_reached_notifies_once [OF c _ _ n] c m n show ?thesis
    by simp
qed


section \<open>What the key loop records\<close>





end
